theory Spec2Isabelle
  imports Main
begin

section \<open>JavaScript values and objects\<close>

text \<open>
  Values of the document and of the generated handle. Numbers are the integral ones
  (fractions and exponents do not occur in what is modelled below); strings are lists
  of code units, and the case mapping and the character classes below are those of ASCII.
\<close>

datatype json =
    JUndefined
  | JNull
  | JBool bool
  | JNum int
  | JString string
  | JArray "json list"
  | JObject "(string \<times> json) list"

text \<open>
  A JavaScript object is kept as the list of its own enumerable entries in the order
  \<open>Object.entries\<close> lists them: keys that are array indices first, in ascending
  numeric order, then the other keys in insertion order. Reads and assignments are those
  of own data properties under ordinary keys; the accessor \<open>__proto__\<close> that objects
  inherit is not modelled, so a property of that name is outside the model.
\<close>

definition digit_char :: "nat \<Rightarrow> char" where
  "digit_char d = char_of (48 + d)"

fun String_nat :: "nat \<Rightarrow> string" where
  "String_nat n = (if n < 10 then [digit_char n] else String_nat (n div 10) @ [digit_char (n mod 10)])"

declare String_nat.simps [simp del]

definition String_int :: "int \<Rightarrow> string" where
  "String_int i = (if i < 0 then CHR ''-'' # String_nat (nat (- i)) else String_nat (nat i))"

definition is_digit :: "char \<Rightarrow> bool" where
  "is_digit c = (48 \<le> (of_char c :: nat) \<and> (of_char c :: nat) \<le> 57)"

definition digits_value :: "string \<Rightarrow> nat" where
  "digits_value s = foldl (\<lambda>acc c. 10 * acc + ((of_char c :: nat) - 48)) 0 s"

definition array_index :: "string \<Rightarrow> nat option" where
  "array_index k =
     (if k \<noteq> [] \<and> list_all is_digit k \<and> (k = ''0'' \<or> hd k \<noteq> CHR ''0'') \<and> digits_value k < 4294967295
      then Some (digits_value k) else None)"

fun insert_index :: "nat \<Rightarrow> string \<Rightarrow> 'a \<Rightarrow> (string \<times> 'a) list \<Rightarrow> (string \<times> 'a) list" where
  "insert_index i k v [] = [(k, v)]"
| "insert_index i k v ((k', v') # es) =
     (case array_index k' of
        None \<Rightarrow> (k, v) # (k', v') # es
      | Some j \<Rightarrow> if i < j then (k, v) # (k', v') # es else (k', v') # insert_index i k v es)"

fun update_entry :: "string \<Rightarrow> 'a \<Rightarrow> (string \<times> 'a) list \<Rightarrow> (string \<times> 'a) list" where
  "update_entry k v [] = []"
| "update_entry k v ((k', v') # es) =
     (if k' = k then (k, v) # es else (k', v') # update_entry k v es)"

fun has_key :: "string \<Rightarrow> (string \<times> 'a) list \<Rightarrow> bool" where
  "has_key k [] = False"
| "has_key k ((k', v') # es) = (k' = k \<or> has_key k es)"

text \<open>The assignment \<open>obj[k] = v\<close>.\<close>

definition object_set :: "string \<Rightarrow> 'a \<Rightarrow> (string \<times> 'a) list \<Rightarrow> (string \<times> 'a) list" where
  "object_set k v es =
     (if has_key k es then update_entry k v es
      else case array_index k of
             None \<Rightarrow> es @ [(k, v)]
           | Some i \<Rightarrow> insert_index i k v es)"

text \<open>The read \<open>obj[k]\<close> of an own property; \<open>None\<close> is \<open>undefined\<close>.\<close>

definition object_get :: "(string \<times> 'a) list \<Rightarrow> string \<Rightarrow> 'a option" where
  "object_get es k = map_of es k"

text \<open>The property key a value of type \<open>string | undefined\<close> is converted to.\<close>

definition property_key :: "string option \<Rightarrow> string" where
  "property_key n = (case n of None \<Rightarrow> ''undefined'' | Some s \<Rightarrow> s)"

definition json_of_string :: "string option \<Rightarrow> json" where
  "json_of_string n = (case n of None \<Rightarrow> JUndefined | Some s \<Rightarrow> JString s)"

text \<open>
  The predicates \<open>isObject\<close> and \<open>isArray\<close> of the JSON library: a value is an
  object when it is a JSON object, and an array when it is a JSON array.
\<close>

fun isObject :: "json \<Rightarrow> bool" where
  "isObject (JObject es) = True"
| "isObject v = False"

fun isArray :: "json \<Rightarrow> bool" where
  "isArray (JArray xs) = True"
| "isArray v = False"

definition upper_char :: "char \<Rightarrow> char" where
  "upper_char c =
     (if 97 \<le> (of_char c :: nat) \<and> (of_char c :: nat) \<le> 122 then char_of ((of_char c :: nat) - 32) else c)"

definition toUpperCase :: "string \<Rightarrow> string" where
  "toUpperCase s = map upper_char s"

section \<open>The document graph (api.ts)\<close>

text \<open>
  The typed document nodes follow the interfaces of the 3.1 object model. A field the
  interface marks optional, or that an accessor types \<open>| undefined\<close>, is an option.
  A parameter, request body or response stands for the node its wrapper holds, which is
  the node after \<open>traverseReference\<close>.
\<close>

record ServerVariableObject =
  variable_default :: string

record ServerObject =
  server_url :: string
  server_variables :: "(string \<times> ServerVariableObject) list option"

record ApiParameter =
  parameter_name :: "string option"
  parameter_in :: "string option"
  parameter_description :: "string option"
  parameter_required :: "bool option"
  parameter_schema :: "json option"

record MediaTypeObject =
  media_schema :: "json option"

record ApiRequestBody =
  requestBody_description :: "string option"
  requestBody_content :: "(string \<times> MediaTypeObject) list option"
  requestBody_required :: "bool option"

record ResponseObject =
  response_content :: "(string \<times> MediaTypeObject) list option"

record OperationObject =
  op_operationId :: "string option"
  op_summary :: "string option"
  op_description :: "string option"
  op_parameters :: "ApiParameter list option"
  op_requestBody :: "ApiRequestBody option"
  op_responses :: "(string \<times> ResponseObject) list option"
  op_servers :: "ServerObject list option"

text \<open>
  A path item node: its summary, description, the entries \<open>Object.entries\<close> lists
  (each value as the cast to an Operation Object in \<open>operations\<close> reads it), its
  servers, its parameters, and the target of its resolved reference. The reference
  engine breaks cycles before these views exist, so the chain of targets is finite.
\<close>

datatype PathItemObject =
  PathItemObject
    (item_summary: "string option")
    (item_description: "string option")
    (item_entries: "(string \<times> OperationObject) list")
    (item_servers: "ServerObject list option")
    (item_parameters: "ApiParameter list option")
    (item_target: "PathItemObject option")

record Api =
  api_servers :: "ServerObject list option"

record ApiPathItem =
  pathItem_key :: string
  pathItem_node :: PathItemObject
  pathItem_api :: Api

record ApiOperation =
  operation_key :: string
  operation_node :: OperationObject
  operation_pathItem :: ApiPathItem

definition resolved :: "ApiPathItem \<Rightarrow> ApiPathItem option" where
  "resolved p =
     (case item_target (pathItem_node p) of
        None \<Rightarrow> None
      | Some t \<Rightarrow> Some \<lparr>pathItem_key = pathItem_key p, pathItem_node = t, pathItem_api = pathItem_api p\<rparr>)"

lemma resolved_size:
  "resolved p = Some r \<Longrightarrow> size (pathItem_node r) < size (pathItem_node p)"
  by (cases "pathItem_node p") (auto simp: resolved_def split: option.splits)

function pathItem_servers :: "ApiPathItem \<Rightarrow> ServerObject list option" where
  "pathItem_servers p =
     (case item_servers (pathItem_node p) of
        Some s \<Rightarrow> Some s
      | None \<Rightarrow> (case resolved p of None \<Rightarrow> None | Some r \<Rightarrow> pathItem_servers r))"
  by pat_completeness auto
termination
  by (relation "measure (\<lambda>p. size (pathItem_node p))") (auto simp: resolved_size)

function pathItem_parameters :: "ApiPathItem \<Rightarrow> ApiParameter list option" where
  "pathItem_parameters p =
     (case item_parameters (pathItem_node p) of
        None \<Rightarrow> (case resolved p of None \<Rightarrow> None | Some r \<Rightarrow> pathItem_parameters r)
      | Some ps \<Rightarrow> Some ps)"
  by pat_completeness auto
termination
  by (relation "measure (\<lambda>p. size (pathItem_node p))") (auto simp: resolved_size)

declare pathItem_servers.simps [simp del] pathItem_parameters.simps [simp del]







definition operation_method :: "ApiOperation \<Rightarrow> string" where
  "operation_method operation = toUpperCase (operation_key operation)"

definition operation_path :: "ApiOperation \<Rightarrow> string" where
  "operation_path operation = pathItem_key (operation_pathItem operation)"

definition operation_api :: "ApiOperation \<Rightarrow> Api" where
  "operation_api operation = pathItem_api (operation_pathItem operation)"

fun hasParameter :: "ApiParameter list \<Rightarrow> string option \<Rightarrow> string option \<Rightarrow> bool" where
  "hasParameter [] name location = False"
| "hasParameter (parameter # parameters) name location =
     (if parameter_name parameter = name \<and> parameter_in parameter = location then True
      else hasParameter parameters name location)"

text \<open>The loop of \<open>allParameters\<close> over the path item's parameters.\<close>

fun include_pathItem_parameters :: "ApiParameter list \<Rightarrow> ApiParameter list \<Rightarrow> ApiParameter list" where
  "include_pathItem_parameters parameters [] = parameters"
| "include_pathItem_parameters parameters (parameter # rest) =
     (if hasParameter parameters (parameter_name parameter) (parameter_in parameter)
      then include_pathItem_parameters parameters rest
      else include_pathItem_parameters (parameters @ [parameter]) rest)"

definition allParameters :: "ApiOperation \<Rightarrow> ApiParameter list" where
  "allParameters operation =
     (let parameters = (case op_parameters (operation_node operation) of None \<Rightarrow> [] | Some ps \<Rightarrow> ps)
      in case pathItem_parameters (operation_pathItem operation) of
           None \<Rightarrow> parameters
         | Some ps \<Rightarrow> include_pathItem_parameters parameters ps)"

section \<open>The libraries the handle generators call\<close>

text \<open>
  The query values of the query library, which \<open>formatQuery\<close> turns into a string.
\<close>

datatype selector = NameSelector string | WildcardSelector

datatype segment = ChildSegment "selector list"

datatype query_expression = Query "segment list"

text \<open>
  The functions of the JSON, URI and query libraries, with the context argument applied:
  tree shaking takes the \<open>transform\<close> option and the roots (the target for definitions
  is always \<open>#/$defs\<close>) and returns the rewritten roots and the optional definitions;
  \<open>getReference_target\<close> is \<open>getReference(context, node)?.target\<close>, with
  \<open>None\<close> for \<open>undefined\<close>, read on the value of the node.
\<close>

record externals =
  treeShakeReferences :: "(json \<Rightarrow> json) option \<Rightarrow> json list \<Rightarrow> json list \<times> json option"
  expandUriTemplate :: "string \<Rightarrow> (string \<Rightarrow> string option) \<Rightarrow> string"
  getReference_target :: "json \<Rightarrow> json option"
  formatQuery :: "query_expression \<Rightarrow> string"

datatype runtime_error = TypeError

datatype error = ApiError string | RuntimeError runtime_error

section \<open>The request template (handle/request.ts)\<close>

record ApiHandleOptions =
  option_server :: "ServerObject option"
  option_transform :: "(json \<Rightarrow> json) option"

text \<open>The variables of \<open>generateApiHandleRequest\<close> that its two loops assign.\<close>

record request_state =
  rq_required :: "json list option"
  rq_query :: "(string \<times> json) list option"
  rq_headers :: "(string \<times> json) list option"
  rq_cookies :: "(string \<times> json) list option"
  rq_body :: "json option"
  rq_paramIndex :: "(string \<times> nat) list"
  rq_schemaRoots :: "json list"

definition initial_request_state :: request_state where
  "initial_request_state =
     \<lparr>rq_required = None, rq_query = None, rq_headers = None, rq_cookies = None, rq_body = None,
      rq_paramIndex = [], rq_schemaRoots = []\<rparr>"

text \<open>The entries a spread \<open>{...value}\<close> copies.\<close>

definition indexed :: "'a list \<Rightarrow> (string \<times> 'a) list" where
  "indexed xs = zip (map String_nat [0..<length xs]) xs"

fun spread :: "json \<Rightarrow> (string \<times> json) list" where
  "spread (JObject es) = es"
| "spread (JArray xs) = indexed xs"
| "spread (JString s) = indexed (map (\<lambda>c. JString [c]) s)"
| "spread v = []"

text \<open>\<open>target ??= {}; target[name] = { $: name }\<close>\<close>

definition add_slot :: "string option \<Rightarrow> (string \<times> json) list option \<Rightarrow> (string \<times> json) list option" where
  "add_slot name target =
     Some (object_set (property_key name) (JObject [(''$'', json_of_string name)])
            (case target of None \<Rightarrow> [] | Some es \<Rightarrow> es))"

text \<open>\<open>required ??= []; required.push(name)\<close>\<close>

definition push_required :: "json \<Rightarrow> json list option \<Rightarrow> json list option" where
  "push_required name required = Some ((case required of None \<Rightarrow> [] | Some r \<Rightarrow> r) @ [name])"

text \<open>The body of the loop over \<open>operation.allParameters\<close> (lines 135 to 168).\<close>

definition extract_parameter :: "request_state \<Rightarrow> ApiParameter \<Rightarrow> request_state" where
  "extract_parameter st parameter =
     (case parameter_schema parameter of
        None \<Rightarrow> st
      | Some schema \<Rightarrow>
          if \<not> isObject schema then st
          else
            let parameterSchema =
                  (case parameter_description parameter of
                     None \<Rightarrow> schema
                   | Some d \<Rightarrow> JObject (object_set ''description'' (JString d) (spread schema)));
                st1 =
                  (if parameter_in parameter = Some ''query''
                     then st\<lparr>rq_query := add_slot (parameter_name parameter) (rq_query st)\<rparr>
                   else if parameter_in parameter = Some ''header''
                     then st\<lparr>rq_headers := add_slot (parameter_name parameter) (rq_headers st)\<rparr>
                   else if parameter_in parameter = Some ''path''
                     then st
                   else if parameter_in parameter = Some ''cookie''
                     then st\<lparr>rq_cookies := add_slot (parameter_name parameter) (rq_cookies st)\<rparr>
                   else st);
                st2 =
                  (if parameter_required parameter = Some True
                     then st1\<lparr>rq_required :=
                            push_required (json_of_string (parameter_name parameter)) (rq_required st1)\<rparr>
                   else st1)
            in st2\<lparr>rq_paramIndex :=
                      object_set (property_key (parameter_name parameter)) (length (rq_schemaRoots st2))
                        (rq_paramIndex st2),
                    rq_schemaRoots := rq_schemaRoots st2 @ [parameterSchema]\<rparr>)"

definition extract_parameters :: "ApiParameter list \<Rightarrow> request_state \<Rightarrow> request_state" where
  "extract_parameters parameters st = foldl extract_parameter st parameters"

text \<open>
  The loop that picks the body key: \<open>body\<close>, then \<open>body1\<close>, \<open>body2\<close>, and so on,
  until the key is not one of \<open>paramIndex\<close>.
\<close>

lemma digits_value_snoc:
  "digits_value (s @ [c]) = 10 * digits_value s + ((of_char c :: nat) - 48)"
  by (simp add: digits_value_def)

lemma digits_value_String_nat: "digits_value (String_nat n) = n"
proof (induction n rule: String_nat.induct)
  case (1 n)
  show ?case
  proof (cases "n < 10")
    case True
    then show ?thesis
      by (simp add: String_nat.simps [of n] digits_value_def digit_char_def)
  next
    case False
    have "(of_char (digit_char (n mod 10)) :: nat) = 48 + n mod 10"
      by (simp add: digit_char_def)
    with False "1.IH" show ?thesis
      by (simp add: String_nat.simps [of n] digits_value_snoc)
  qed
qed

lemma inj_String_nat: "inj String_nat"
  by (rule inj_on_inverseI [where g = digits_value]) (rule digits_value_String_nat)

lemma finite_numbered_keys:
  "finite {j. i \<le> j \<and> ''body'' @ String_nat j \<in> fst ` set (paramIndex :: (string \<times> nat) list)}"
proof -
  have "inj (\<lambda>j. ''body'' @ String_nat j)"
    using inj_String_nat by (auto simp: inj_on_def)
  then have "finite ((\<lambda>j. ''body'' @ String_nat j) -` (fst ` set paramIndex))"
    by (intro finite_vimageI) auto
  then show ?thesis
    by (rule rev_finite_subset) auto
qed

function choose_bodyKey :: "(string \<times> nat) list \<Rightarrow> string \<Rightarrow> nat \<Rightarrow> string" where
  "choose_bodyKey paramIndex bodyKey index =
     (if object_get paramIndex bodyKey \<noteq> None
      then choose_bodyKey paramIndex (''body'' @ String_nat index) (index + 1)
      else bodyKey)"
  by pat_completeness auto
termination
proof (relation "measure (\<lambda>(paramIndex, bodyKey, index).
    card {j. index \<le> j \<and> ''body'' @ String_nat j \<in> fst ` set paramIndex} +
    (if bodyKey \<in> fst ` set paramIndex then 1 else 0))")
  show "wf (measure (\<lambda>(paramIndex :: (string \<times> nat) list, bodyKey, index).
    card {j. index \<le> j \<and> ''body'' @ String_nat j \<in> fst ` set paramIndex} +
    (if bodyKey \<in> fst ` set paramIndex then 1 else 0)))"
    by simp
next
  fix paramIndex :: "(string \<times> nat) list" and bodyKey :: string and index :: nat
  assume "object_get paramIndex bodyKey \<noteq> None"
  then have present: "bodyKey \<in> fst ` set paramIndex"
    by (simp add: object_get_def map_of_eq_None_iff)
  let ?P = "\<lambda>j. ''body'' @ String_nat j \<in> fst ` set paramIndex"
  have split: "{j. index \<le> j \<and> ?P j} =
      (if ?P index then insert index {j. index + 1 \<le> j \<and> ?P j} else {j. index + 1 \<le> j \<and> ?P j})"
    by (auto simp: Suc_le_eq le_less)
  have fin: "finite {j. index + 1 \<le> j \<and> ?P j}"
    by (rule finite_numbered_keys)
  have "card {j. index \<le> j \<and> ?P j} =
      card {j. index + 1 \<le> j \<and> ?P j} + (if ?P index then 1 else 0)"
    unfolding split using fin by simp
  with present
  show "((paramIndex, ''body'' @ String_nat index, index + 1), (paramIndex, bodyKey, index))
      \<in> measure (\<lambda>(paramIndex, bodyKey, index).
          card {j. index \<le> j \<and> ''body'' @ String_nat j \<in> fst ` set paramIndex} +
          (if bodyKey \<in> fst ` set paramIndex then 1 else 0))"
    by simp
qed

declare choose_bodyKey.simps [simp del]

text \<open>
  The loop over the content types of the request body (lines 180 to 221): a content type
  whose schema is no object, or whose media type is none of the three, is passed over;
  the first other one sets the body and ends the loop.
\<close>

fun extract_requestBody ::
  "ApiRequestBody \<Rightarrow> string \<Rightarrow> (string \<times> MediaTypeObject) list \<Rightarrow> request_state \<Rightarrow> request_state" where
  "extract_requestBody requestBody bodyKey [] st = st"
| "extract_requestBody requestBody bodyKey ((mediaType, node) # rest) st =
     (case media_schema node of
        None \<Rightarrow> extract_requestBody requestBody bodyKey rest st
      | Some schema \<Rightarrow>
          if \<not> isObject schema then extract_requestBody requestBody bodyKey rest st
          else
            let contentSchema =
                  (case requestBody_description requestBody of
                     None \<Rightarrow> schema
                   | Some d \<Rightarrow> JObject (object_set ''description'' (JString d) (spread schema)));
                body =
                  (if mediaType = ''application/json''
                     then Some (JObject [(''$'', JString bodyKey), (''encode'', JString ''json'')])
                   else if mediaType = ''application/x-www-form-urlencoded''
                     then Some (JObject [(''$'', JString bodyKey), (''encode'', JString ''urlencoded'')])
                   else if mediaType = ''multipart/form-data''
                     then Some (JObject [(''$'', JString bodyKey), (''encode'', JString ''multipart'')])
                   else None)
            in case body of
                 None \<Rightarrow> extract_requestBody requestBody bodyKey rest st
               | Some b \<Rightarrow>
                   let st1 =
                         (if requestBody_required requestBody = Some True
                            then st\<lparr>rq_required := push_required (JString bodyKey) (rq_required st)\<rparr>
                          else st)
                   in st1\<lparr>rq_body := Some b,
                          rq_paramIndex := object_set bodyKey (length (rq_schemaRoots st1)) (rq_paramIndex st1),
                          rq_schemaRoots := rq_schemaRoots st1 @ [contentSchema]\<rparr>)"

definition extract_body :: "ApiOperation \<Rightarrow> request_state \<Rightarrow> request_state" where
  "extract_body operation st =
     (case op_requestBody (operation_node operation) of
        None \<Rightarrow> st
      | Some requestBody \<Rightarrow>
          extract_requestBody requestBody (choose_bodyKey (rq_paramIndex st) ''body'' 1)
            (case requestBody_content requestBody of None \<Rightarrow> [] | Some content \<Rightarrow> content) st)"

text \<open>\<open>roots[index]\<close>, which is \<open>undefined\<close> beyond the end.\<close>

definition element_at :: "json list \<Rightarrow> nat \<Rightarrow> json" where
  "element_at xs i = (if i < length xs then xs ! i else JUndefined)"

text \<open>The loop that builds \<open>properties\<close> from \<open>paramIndex\<close> (lines 232 to 235).\<close>

definition construct_properties :: "(string \<times> nat) list \<Rightarrow> json list \<Rightarrow> (string \<times> json) list option" where
  "construct_properties paramIndex roots =
     foldl (\<lambda>properties (name, index).
              Some (object_set name (element_at roots index)
                     (case properties of None \<Rightarrow> [] | Some es \<Rightarrow> es)))
       None paramIndex"

text \<open>The selection of the server (lines 238 to 246).\<close>

definition select_server :: "ApiOperation \<Rightarrow> ApiHandleOptions option \<Rightarrow> error + ServerObject" where
  "select_server operation options =
     (case (case options of None \<Rightarrow> None | Some opts \<Rightarrow> option_server opts) of
        Some server \<Rightarrow> Inr server
      | None \<Rightarrow>
          (case (case op_servers (operation_node operation) of
                   Some s \<Rightarrow> Some s
                 | None \<Rightarrow>
                     (case pathItem_servers (operation_pathItem operation) of
                        Some s \<Rightarrow> Some s
                      | None \<Rightarrow> api_servers (operation_api operation))) of
             None \<Rightarrow> Inl (ApiError ''No servers defined for operation'')
           | Some servers \<Rightarrow>
               (if length servers = 0 then Inl (ApiError ''No servers defined for operation'')
                else Inr (servers ! 0))))"

text \<open>The expansion of the server URL (lines 249 to 256).\<close>

definition expand_server_url :: "externals \<Rightarrow> ServerObject \<Rightarrow> string" where
  "expand_server_url ext server =
     (case server_variables server of
        Some variables \<Rightarrow>
          expandUriTemplate ext (server_url server)
            (\<lambda>varname. case object_get variables varname of
                          None \<Rightarrow> None
                        | Some variable \<Rightarrow> Some (variable_default variable))
      | None \<Rightarrow> server_url server)"

text \<open>The request URL with its query expansion (lines 258 to 272).\<close>

definition join_vars :: "string list \<Rightarrow> string" where
  "join_vars names = foldl (\<lambda>vars name. (if length vars \<noteq> 0 then vars @ '','' else vars) @ name) [] names"

definition request_url :: "string \<Rightarrow> string \<Rightarrow> (string \<times> json) list option \<Rightarrow> string" where
  "request_url serverUrl path query =
     (let url = serverUrl @ path
      in case query of
           None \<Rightarrow> url
         | Some q \<Rightarrow>
             if CHR ''?'' \<in> set url then url @ ''{&'' @ join_vars (map fst q) @ ''}''
             else url @ ''{?'' @ join_vars (map fst q) @ ''}'')"

record ApiHandleRequest =
  handle_parameters :: json
  handle_request :: json

definition optional_entry :: "string \<Rightarrow> json option \<Rightarrow> (string \<times> json) list" where
  "optional_entry k v = (case v of None \<Rightarrow> [] | Some x \<Rightarrow> [(k, x)])"

definition generateApiHandleRequest ::
  "externals \<Rightarrow> ApiOperation \<Rightarrow> ApiHandleOptions option \<Rightarrow> error + ApiHandleRequest" where
  "generateApiHandleRequest ext operation options =
     (let st = extract_body operation (extract_parameters (allParameters operation) initial_request_state);
          result = treeShakeReferences ext
                     (case options of None \<Rightarrow> None | Some opts \<Rightarrow> option_transform opts)
                     (rq_schemaRoots st);
          properties = construct_properties (rq_paramIndex st) (fst result)
      in case select_server operation options of
           Inl e \<Rightarrow> Inl e
         | Inr server \<Rightarrow>
             let url = request_url (expand_server_url ext server) (operation_path operation) (rq_query st)
             in Inr \<lparr>handle_parameters =
                       JObject ([(''type'', JString ''object'')] @
                                optional_entry ''properties'' (map_option JObject properties) @
                                optional_entry ''required'' (map_option JArray (rq_required st)) @
                                optional_entry ''$defs'' (snd result)),
                     handle_request =
                       JObject ([(''method'', JString (operation_method operation)),
                                 (''url'', JObject [(''$uri'', JString url)])] @
                                optional_entry ''headers'' (map_option JObject (rq_headers st)) @
                                optional_entry ''body'' (rq_body st))\<rparr>)"

section \<open>The schema templates (handle/schema.ts)\<close>

text \<open>
  The functions below omit the context argument where the source does not use it. A
  function that follows references takes a number of steps it may spend: it returns
  \<open>None\<close> when they do not suffice, as on a cycle of references, where the source
  does not return. The only exceptions these functions raise are type errors of the
  language.
\<close>

type_synonym 'a outcome = "(runtime_error + 'a) option"

record ApiResponse =
  response_key :: string
  response_node :: ResponseObject

record ApiSchemaState =
  state_varname :: string
  state_depth :: int
  state_response :: "ApiResponse option"
  state_operation :: "ApiOperation option"

text \<open>The read \<open>value.k\<close> of a value that is not \<open>null\<close> or \<open>undefined\<close>.\<close>

fun read :: "json \<Rightarrow> string \<Rightarrow> json" where
  "read (JObject es) k = (case map_of es k of None \<Rightarrow> JUndefined | Some v \<Rightarrow> v)"
| "read v k = JUndefined"

text \<open>\<open>Object.entries\<close>, which throws on \<open>null\<close> and \<open>undefined\<close>.\<close>

fun Object_entries :: "json \<Rightarrow> runtime_error + (string \<times> json) list" where
  "Object_entries JNull = Inl TypeError"
| "Object_entries JUndefined = Inl TypeError"
| "Object_entries v = Inr (spread v)"

text \<open>The conversion to a string that \<open>+\<close> applies to an operand.\<close>

fun join_strings :: "string list \<Rightarrow> string" where
  "join_strings [] = []"
| "join_strings [s] = s"
| "join_strings (s # t # more_strings) = s @ '','' @ join_strings (t # more_strings)"

fun ToString :: "json \<Rightarrow> string" where
  "ToString JUndefined = ''undefined''"
| "ToString JNull = ''null''"
| "ToString (JBool b) = (if b then ''true'' else ''false'')"
| "ToString (JNum i) = String_int i"
| "ToString (JString s) = s"
| "ToString (JArray xs) =
     join_strings (map (\<lambda>x. if x = JNull \<or> x = JUndefined then [] else ToString x) xs)"
| "ToString (JObject es) = ''[object Object]''"

fun isStringSchema :: "json \<Rightarrow> bool" where
  "isStringSchema (JObject es) =
     (case read (JObject es) ''type'' of
        JString t \<Rightarrow> t = ''string''
      | JArray ts \<Rightarrow> JString ''string'' \<in> set ts
      | _ \<Rightarrow> False)"
| "isStringSchema v = False"

definition isArraySchema :: "json \<Rightarrow> bool" where
  "isArraySchema schema =
     (isObject schema \<and> (read schema ''type'' = JString ''array'' \<or> read schema ''items'' \<noteq> JUndefined))"

definition isObjectSchema :: "json \<Rightarrow> bool" where
  "isObjectSchema schema =
     (isObject schema \<and> (read schema ''type'' = JString ''object'' \<or> isObject (read schema ''properties'')))"

definition currentQuery :: "externals \<Rightarrow> ApiSchemaState \<Rightarrow> string" where
  "currentQuery ext state = formatQuery ext (Query [ChildSegment [NameSelector (state_varname state)]])"

definition childrenQuery :: "externals \<Rightarrow> ApiSchemaState \<Rightarrow> string" where
  "childrenQuery ext state =
     formatQuery ext (Query [ChildSegment [NameSelector (state_varname state)], ChildSegment [WildcardSelector]])"

definition childQuery :: "externals \<Rightarrow> ApiSchemaState \<Rightarrow> string \<Rightarrow> string" where
  "childQuery ext state name =
     formatQuery ext (Query [ChildSegment [NameSelector (state_varname state)], ChildSegment [NameSelector name]])"

text \<open>
  \<open>firstLine\<close>, on whatever value it is handed: \<open>indexOf\<close> and \<open>slice\<close> are those of
  a string or of an array, and no other value has them.
\<close>

fun firstLine :: "json \<Rightarrow> runtime_error + json" where
  "firstLine JUndefined = Inr JUndefined"
| "firstLine (JString s) = Inr (JString (takeWhile (\<lambda>c. c \<noteq> CHR 0x0A) s))"
| "firstLine (JArray xs) = Inr (JArray (takeWhile (\<lambda>x. x \<noteq> JString [CHR 0x0A]) xs))"
| "firstLine v = Inl TypeError"

definition code_block :: "externals \<Rightarrow> ApiSchemaState \<Rightarrow> json" where
  "code_block ext state =
     JObject [(''$lang'', JString ''json''),
              (''$code'', JObject [(''$encode'', JString ''json''),
                                   (''$indent'', JBool True),
                                   (''$content'', JObject [(''$'', JString (currentQuery ext state))])])]"

definition generateFallbackTemplate :: "externals \<Rightarrow> ApiSchemaState \<Rightarrow> json \<Rightarrow> json" where
  "generateFallbackTemplate ext state schema = code_block ext state"

text \<open>The loop of \<open>traverseSchemaReference\<close> and the object it returns.\<close>

definition string_field :: "json \<Rightarrow> string \<Rightarrow> string option" where
  "string_field schema k = (case read schema k of JString s \<Rightarrow> Some s | _ \<Rightarrow> None)"

definition first_defined :: "string option \<Rightarrow> string option \<Rightarrow> string option" where
  "first_defined current found = (case current of None \<Rightarrow> found | Some s \<Rightarrow> Some s)"

fun traverse_loop ::
  "nat \<Rightarrow> externals \<Rightarrow> json \<Rightarrow> string option \<Rightarrow> string option \<Rightarrow> (json \<times> string option \<times> string option) option" where
  "traverse_loop 0 ext schema title description = None"
| "traverse_loop (Suc n) ext schema title description =
     (let title' = first_defined title (string_field schema ''title'');
          description' = first_defined description (string_field schema ''description'')
      in case getReference_target ext schema of
           None \<Rightarrow> Some (schema, title', description')
         | Some target \<Rightarrow> traverse_loop n ext target title' description')"

definition set_optional :: "string \<Rightarrow> string option \<Rightarrow> (string \<times> json) list \<Rightarrow> (string \<times> json) list" where
  "set_optional k v es = (case v of None \<Rightarrow> es | Some s \<Rightarrow> object_set k (JString s) es)"

definition traverseSchemaReference :: "nat \<Rightarrow> externals \<Rightarrow> json \<Rightarrow> json option" where
  "traverseSchemaReference n ext schema =
     (case traverse_loop n ext schema None None of
        None \<Rightarrow> None
      | Some (target, title, description) \<Rightarrow>
          Some (JObject (set_optional ''description'' description (set_optional ''title'' title (spread target)))))"

definition assign_entries :: "(string \<times> json) list \<Rightarrow> (string \<times> json) list \<Rightarrow> (string \<times> json) list" where
  "assign_entries properties es = foldl (\<lambda>ps (key, v). object_set key v ps) properties es"

fun resolveSchema :: "nat \<Rightarrow> externals \<Rightarrow> json \<Rightarrow> json outcome"
  and resolveAllOfSchema :: "nat \<Rightarrow> externals \<Rightarrow> json \<Rightarrow> json outcome"
  and allOf_loop ::
    "nat \<Rightarrow> externals \<Rightarrow> json \<Rightarrow> json list \<Rightarrow> string option \<Rightarrow> string option \<Rightarrow> (string \<times> json) list \<Rightarrow> json outcome"
where
  "resolveSchema n ext schema =
     (case traverseSchemaReference n ext schema of
        None \<Rightarrow> None
      | Some target \<Rightarrow> resolveAllOfSchema n ext target)"
| "resolveAllOfSchema n ext schema =
     (if \<not> isObject schema \<or> \<not> isArray (read schema ''allOf'') then Some (Inr schema)
      else case read schema ''allOf'' of
             JArray members \<Rightarrow> allOf_loop n ext schema members None None []
           | _ \<Rightarrow> Some (Inr schema))"
| "allOf_loop n ext schema [] title description properties =
     Some (Inr (JObject ([(''type'', JString ''object'')] @
                         optional_entry ''title'' (map_option JString title) @
                         optional_entry ''description'' (map_option JString description) @
                         [(''properties'', JObject properties)])))"
| "allOf_loop 0 ext schema (member # members) title description properties = None"
| "allOf_loop (Suc n) ext schema (member # members) title description properties =
     (case resolveSchema n ext member of
        None \<Rightarrow> None
      | Some (Inl e) \<Rightarrow> Some (Inl e)
      | Some (Inr memberSchema) \<Rightarrow>
          if \<not> isObjectSchema memberSchema then Some (Inr schema)
          else
            let title' = first_defined title (string_field memberSchema ''title'');
                description' = first_defined description (string_field memberSchema ''description'')
            in if read memberSchema ''properties'' \<noteq> JUndefined
               then (case Object_entries (read memberSchema ''properties'') of
                       Inl e \<Rightarrow> Some (Inl e)
                     | Inr es \<Rightarrow>
                         allOf_loop (Suc n) ext schema members title' description'
                           (assign_entries properties es))
               else allOf_loop (Suc n) ext schema members title' description' properties)"

declare resolveSchema.simps [simp del] resolveAllOfSchema.simps [simp del]

text \<open>\<open>generateKeyPropertyItems\<close> and its loop over the properties.\<close>

definition property_summary :: "string \<Rightarrow> json \<Rightarrow> string" where
  "property_summary propName propSchema =
     (let summary = ''**'' @ propName @ ''**'';
          summary =
            (case read propSchema ''description'' of
               JString d \<Rightarrow> summary @ '': '' @ takeWhile (\<lambda>c. c \<noteq> CHR 0x0A) d
             | _ \<Rightarrow> summary);
          summary =
            (if read propSchema ''default'' \<noteq> JUndefined
             then summary @ '' (default: '' @ ToString (read propSchema ''default'') @ '')''
             else summary)
      in if length summary = 0 then [CHR 0x0A] else summary)"

fun generateKeyPropertyItems :: "nat \<Rightarrow> externals \<Rightarrow> json \<Rightarrow> json list outcome"
  and keyPropertyItems_loop :: "nat \<Rightarrow> externals \<Rightarrow> (string \<times> json) list \<Rightarrow> json list outcome"
where
  "generateKeyPropertyItems n ext schema =
     (if read schema ''properties'' = JUndefined then Some (Inr [])
      else case Object_entries (read schema ''properties'') of
             Inl e \<Rightarrow> Some (Inl e)
           | Inr es \<Rightarrow> keyPropertyItems_loop n ext es)"
| "keyPropertyItems_loop n ext [] = Some (Inr [])"
| "keyPropertyItems_loop 0 ext (entry # entries) = None"
| "keyPropertyItems_loop (Suc n) ext ((propName, node) # entries) =
     (case resolveSchema n ext node of
        None \<Rightarrow> None
      | Some (Inl e) \<Rightarrow> Some (Inl e)
      | Some (Inr propSchema) \<Rightarrow>
          if \<not> isObject propSchema then keyPropertyItems_loop (Suc n) ext entries
          else
            (case (if isObjectSchema propSchema then generateKeyPropertyItems n ext propSchema
                   else Some (Inr [])) of
               None \<Rightarrow> None
             | Some (Inl e) \<Rightarrow> Some (Inl e)
             | Some (Inr subPropertyItems) \<Rightarrow>
                 let summary = JString (property_summary propName propSchema);
                     propertyItem =
                       (if length subPropertyItems \<noteq> 0
                        then JArray [summary, JObject [(''$ul'', JArray subPropertyItems)]]
                        else summary)
                 in (case keyPropertyItems_loop (Suc n) ext entries of
                       None \<Rightarrow> None
                     | Some (Inl e) \<Rightarrow> Some (Inl e)
                     | Some (Inr propertyItems) \<Rightarrow> Some (Inr (propertyItem # propertyItems)))))"

definition key_properties :: "json list \<Rightarrow> json list" where
  "key_properties keyPropertyItems =
     (if length keyPropertyItems \<noteq> 0
      then [JString ''**Key properties:**'', JObject [(''$ul'', JArray keyPropertyItems)]]
      else [])"

definition heading :: "ApiSchemaState \<Rightarrow> json \<Rightarrow> json" where
  "heading state title = JObject [(''$h'' @ String_int (state_depth state), title)]"

definition generateObjectMasterTemplate :: "nat \<Rightarrow> externals \<Rightarrow> ApiSchemaState \<Rightarrow> json \<Rightarrow> json outcome" where
  "generateObjectMasterTemplate n ext state schema =
     (let title =
            (if read schema ''title'' = JUndefined \<or> read schema ''title'' = JNull then JString ''Object''
             else read schema ''title'');
          description = read schema ''description''
      in case generateKeyPropertyItems n ext schema of
           None \<Rightarrow> None
         | Some (Inl e) \<Rightarrow> Some (Inl e)
         | Some (Inr keyPropertyItems) \<Rightarrow>
             (case firstLine title of
                Inl e \<Rightarrow> Some (Inl e)
              | Inr line \<Rightarrow>
                  Some (Inr (JObject
                    [(''$block'',
                      JArray ([heading state line] @
                              (if description = JUndefined then [] else [description]) @
                              key_properties keyPropertyItems @
                              [code_block ext state]))]))))"

definition pickTitleProperty :: "json \<Rightarrow> string option" where
  "pickTitleProperty schema =
     (if isStringSchema (read (read schema ''properties'') ''title'') then Some ''title''
      else if isStringSchema (read (read schema ''properties'') ''name'') then Some ''name''
      else if isStringSchema (read (read schema ''properties'') ''id'') then Some ''id''
      else None)"

definition generateObjectElementTemplate :: "externals \<Rightarrow> ApiSchemaState \<Rightarrow> json \<Rightarrow> json" where
  "generateObjectElementTemplate ext state schema =
     (let title =
            (case pickTitleProperty schema of
               Some titleProperty \<Rightarrow> JObject [(''$'', JString (childQuery ext state titleProperty))]
             | None \<Rightarrow> JString ''Item'')
      in JObject [(''$block'', JArray [heading state title, code_block ext state])])"

definition generateElementTemplate :: "nat \<Rightarrow> externals \<Rightarrow> ApiSchemaState \<Rightarrow> json \<Rightarrow> json outcome" where
  "generateElementTemplate n ext state schema =
     (case resolveSchema n ext schema of
        None \<Rightarrow> None
      | Some (Inl e) \<Rightarrow> Some (Inl e)
      | Some (Inr resolved_schema) \<Rightarrow>
          if state_depth state > 6 then Some (Inr (generateFallbackTemplate ext state resolved_schema))
          else if isObjectSchema resolved_schema
            then Some (Inr (generateObjectElementTemplate ext state resolved_schema))
          else Some (Inr (generateFallbackTemplate ext state resolved_schema)))"

definition generateArrayMasterTemplate :: "nat \<Rightarrow> externals \<Rightarrow> ApiSchemaState \<Rightarrow> json \<Rightarrow> json outcome" where
  "generateArrayMasterTemplate n ext state schema =
     (case resolveSchema n ext (read schema ''items'') of
        None \<Rightarrow> None
      | Some (Inl e) \<Rightarrow> Some (Inl e)
      | Some (Inr itemSchema) \<Rightarrow>
          let title =
                (if read schema ''title'' = JUndefined \<or> read schema ''title'' = JNull
                 then (if read itemSchema ''title'' \<noteq> JUndefined
                       then JString (ToString (read itemSchema ''title'') @ '' list'')
                       else JString ''List'')
                 else read schema ''title'');
              description =
                (if read schema ''description'' = JUndefined \<or> read schema ''description'' = JNull
                 then read itemSchema ''description''
                 else read schema ''description'')
          in case generateKeyPropertyItems n ext itemSchema of
               None \<Rightarrow> None
             | Some (Inl e) \<Rightarrow> Some (Inl e)
             | Some (Inr keyPropertyItems) \<Rightarrow>
                 (case generateElementTemplate n ext
                         (state\<lparr>state_varname := ''item'', state_depth := state_depth state + 1\<rparr>)
                         itemSchema of
                    None \<Rightarrow> None
                  | Some (Inl e) \<Rightarrow> Some (Inl e)
                  | Some (Inr template) \<Rightarrow>
                      let itemTemplate =
                            (if isArray template \<or> \<not> isObject template
                             then JObject [(''$value'', template)] else template)
                      in (case firstLine title of
                            Inl e \<Rightarrow> Some (Inl e)
                          | Inr line \<Rightarrow>
                              Some (Inr (JObject
                                [(''$block'',
                                  JArray ([heading state line] @
                                          (if description = JUndefined then [] else [description]) @
                                          key_properties keyPropertyItems @
                                          [JObject (assign_entries
                                             [(''$each'', JString (childrenQuery ext state)),
                                              (''$as'', JString ''item'')]
                                             (spread itemTemplate))]))])))))"

definition generateMasterTemplate :: "nat \<Rightarrow> externals \<Rightarrow> ApiSchemaState \<Rightarrow> json \<Rightarrow> json outcome" where
  "generateMasterTemplate n ext state schema =
     (case resolveSchema n ext schema of
        None \<Rightarrow> None
      | Some (Inl e) \<Rightarrow> Some (Inl e)
      | Some (Inr resolved_schema) \<Rightarrow>
          if isArraySchema resolved_schema then generateArrayMasterTemplate n ext state resolved_schema
          else if isObjectSchema resolved_schema then generateObjectMasterTemplate n ext state resolved_schema
          else Some (Inr (generateFallbackTemplate ext state resolved_schema)))"

definition generateSchemaTemplate :: "nat \<Rightarrow> externals \<Rightarrow> ApiSchemaState \<Rightarrow> json \<Rightarrow> json outcome" where
  "generateSchemaTemplate n ext state schema =
     (case generateMasterTemplate n ext state schema of
        None \<Rightarrow> None
      | Some (Inl e) \<Rightarrow> Some (Inl e)
      | Some (Inr template) \<Rightarrow>
          let content =
                (if isArray template \<or> \<not> isObject template then JObject [(''$block'', template)]
                 else template)
          in Some (Inr (JObject (assign_entries [(''$encode'', JString ''markdown'')] (spread content)))))"

section \<open>The response templates (handle/responses.ts)\<close>

text \<open>The iteration over the responses of an operation, which skips extension keys.\<close>

definition operation_responses :: "ApiOperation \<Rightarrow> ApiResponse list" where
  "operation_responses operation =
     (case op_responses (operation_node operation) of
        None \<Rightarrow> []
      | Some node \<Rightarrow>
          map (\<lambda>(key, response). \<lparr>response_key = key, response_node = response\<rparr>)
            (filter (\<lambda>(key, response). take 2 key \<noteq> ''x-'') node))"

text \<open>The first schema of a response that is an object, over its content types.\<close>

fun first_object_schema :: "(string \<times> MediaTypeObject) list \<Rightarrow> json option" where
  "first_object_schema [] = None"
| "first_object_schema ((mediaType, node) # rest) =
     (case media_schema node of
        None \<Rightarrow> first_object_schema rest
      | Some schema \<Rightarrow> if \<not> isObject schema then first_object_schema rest else Some schema)"

text \<open>The loop that extracts the response schemas (lines 45 to 54).\<close>

definition extract_response ::
  "(string \<times> nat \<times> ApiResponse) list \<times> json list \<Rightarrow> ApiResponse \<Rightarrow> (string \<times> nat \<times> ApiResponse) list \<times> json list" where
  "extract_response st response =
     (case st of
        (responseIndex, schemaRoots) \<Rightarrow>
          (case first_object_schema
                  (case response_content (response_node response) of None \<Rightarrow> [] | Some content \<Rightarrow> content) of
             None \<Rightarrow> (responseIndex, schemaRoots)
           | Some schema \<Rightarrow>
               (object_set (response_key response) (length schemaRoots, response) responseIndex,
                schemaRoots @ [schema])))"

text \<open>The loop that constructs the response templates (lines 64 to 71).\<close>

fun construct_responses ::
  "nat \<Rightarrow> externals \<Rightarrow> ApiOperation \<Rightarrow> json list \<Rightarrow> (string \<times> nat \<times> ApiResponse) list \<Rightarrow>
   (string \<times> json) list \<Rightarrow> (string \<times> json) list outcome" where
  "construct_responses n ext operation roots [] responses = Some (Inr responses)"
| "construct_responses n ext operation roots ((code, index, response) # rest) responses =
     (case generateSchemaTemplate n ext
             \<lparr>state_varname = ''body'', state_depth = 1, state_response = Some response,
              state_operation = Some operation\<rparr>
             (element_at roots index) of
        None \<Rightarrow> None
      | Some (Inl e) \<Rightarrow> Some (Inl e)
      | Some (Inr template) \<Rightarrow>
          construct_responses n ext operation roots rest (object_set code template responses))"

definition generateApiHandleResponses ::
  "nat \<Rightarrow> externals \<Rightarrow> ApiOperation \<Rightarrow> ApiHandleOptions option \<Rightarrow> json outcome" where
  "generateApiHandleResponses n ext operation options =
     (case foldl extract_response ([], []) (operation_responses operation) of
        (responseIndex, schemaRoots) \<Rightarrow>
          let result = treeShakeReferences ext
                         (case options of None \<Rightarrow> None | Some opts \<Rightarrow> option_transform opts)
                         schemaRoots
          in case construct_responses n ext operation (fst result) responseIndex [] of
               None \<Rightarrow> None
             | Some (Inl e) \<Rightarrow> Some (Inl e)
             | Some (Inr responses) \<Rightarrow> Some (Inr (JObject [(''responses'', JObject responses)])))"

section \<open>The handle (handle/generate.ts)\<close>

text \<open>The replacement of every character outside \<open>[a-zA-Z0-9_-]\<close> by an underscore.\<close>

definition name_char :: "char \<Rightarrow> bool" where
  "name_char c =
     ((97 \<le> (of_char c :: nat) \<and> (of_char c :: nat) \<le> 122) \<or>
      (65 \<le> (of_char c :: nat) \<and> (of_char c :: nat) \<le> 90) \<or>
      (48 \<le> (of_char c :: nat) \<and> (of_char c :: nat) \<le> 57) \<or>
      c = CHR ''_'' \<or> c = CHR ''-'')"

definition replace_other_chars :: "string \<Rightarrow> string" where
  "replace_other_chars name = map (\<lambda>c. if name_char c then c else CHR ''_'') name"

definition generateApiHandle ::
  "nat \<Rightarrow> externals \<Rightarrow> ApiOperation \<Rightarrow> ApiHandleOptions option \<Rightarrow> (error + json) option" where
  "generateApiHandle n ext operation options =
     (let name =
            (case op_operationId (operation_node operation) of
               Some operationId \<Rightarrow> Some operationId
             | None \<Rightarrow> Some (operation_method operation @ '' '' @ operation_path operation))
      in case name of
           None \<Rightarrow> Some (Inl (ApiError ''Unnamed operation''))
         | Some defined_name \<Rightarrow>
             let name = replace_other_chars defined_name;
                 description =
                   (case op_description (operation_node operation) of
                      Some d \<Rightarrow> Some d
                    | None \<Rightarrow> op_summary (operation_node operation))
             in case generateApiHandleRequest ext operation options of
                  Inl e \<Rightarrow> Some (Inl e)
                | Inr request \<Rightarrow>
                    (case generateApiHandleResponses n ext operation options of
                       None \<Rightarrow> None
                     | Some (Inl e) \<Rightarrow> Some (Inl (RuntimeError e))
                     | Some (Inr responses) \<Rightarrow>
                         Some (Inr (JObject
                           ([(''name'', JString name)] @
                            optional_entry ''description'' (map_option JString description) @
                            [(''parameters'', handle_parameters request),
                             (''handler'', JString ''http''),
                             (''request'', handle_request request),
                             (''responses'', read responses ''responses'')])))))"

section \<open>Notions the statements use\<close>

text \<open>The key that identifies a parameter: its name and its location.\<close>

definition parameter_id :: "ApiParameter \<Rightarrow> string option \<times> string option" where
  "parameter_id p = (parameter_name p, parameter_in p)"

text \<open>
  The path item parameters that are kept, in their order: one is dropped when its key is
  among those already present, and each one kept is present for those after it.
\<close>

fun kept_pathItem_parameters :: "(string option \<times> string option) set \<Rightarrow> ApiParameter list \<Rightarrow> ApiParameter list" where
  "kept_pathItem_parameters present [] = []"
| "kept_pathItem_parameters present (p # ps) =
     (if parameter_id p \<in> present then kept_pathItem_parameters present ps
      else p # kept_pathItem_parameters (insert (parameter_id p) present) ps)"




text \<open>The parameters an operation declares itself, and those of its path item.\<close>

definition direct_parameters :: "ApiOperation \<Rightarrow> ApiParameter list" where
  "direct_parameters operation =
     (case op_parameters (operation_node operation) of None \<Rightarrow> [] | Some ps \<Rightarrow> ps)"

definition inherited_parameters :: "ApiOperation \<Rightarrow> ApiParameter list" where
  "inherited_parameters operation =
     (case pathItem_parameters (operation_pathItem operation) of None \<Rightarrow> [] | Some ps \<Rightarrow> ps)"

text \<open>Small documents for the concrete instances below.\<close>

abbreviation no_operation :: OperationObject where
  "no_operation \<equiv>
     \<lparr>op_operationId = None, op_summary = None, op_description = None, op_parameters = None,
      op_requestBody = None, op_responses = None, op_servers = None\<rparr>"

abbreviation plain_parameter :: "string \<Rightarrow> string \<Rightarrow> ApiParameter" where
  "plain_parameter n l \<equiv>
     \<lparr>parameter_name = Some n, parameter_in = Some l, parameter_description = None,
      parameter_required = None, parameter_schema = None\<rparr>"

abbreviation plain_item :: "(string \<times> OperationObject) list \<Rightarrow> PathItemObject option \<Rightarrow> PathItemObject" where
  "plain_item es t \<equiv> PathItemObject None None es None None t"

abbreviation at_path :: "string \<Rightarrow> PathItemObject \<Rightarrow> ApiPathItem" where
  "at_path k n \<equiv> \<lparr>pathItem_key = k, pathItem_node = n, pathItem_api = \<lparr>api_servers = None\<rparr>\<rparr>"

text \<open>The parameters that the request generator collects: those whose schema is an object.\<close>

definition has_object_schema :: "ApiParameter \<Rightarrow> bool" where
  "has_object_schema p = (case parameter_schema p of None \<Rightarrow> False | Some s \<Rightarrow> isObject s)"

definition collected_parameters :: "ApiOperation \<Rightarrow> ApiParameter list" where
  "collected_parameters operation = filter has_object_schema (allParameters operation)"

definition located :: "string \<Rightarrow> ApiOperation \<Rightarrow> ApiParameter list" where
  "located l operation = filter (\<lambda>p. parameter_in p = Some l) (collected_parameters operation)"

text \<open>The name under which a parameter is filed, and the schema submitted for it.\<close>

definition slot_key :: "ApiParameter \<Rightarrow> string" where
  "slot_key p = property_key (parameter_name p)"

definition described_schema :: "ApiParameter \<Rightarrow> json" where
  "described_schema p =
     (case parameter_schema p of
        None \<Rightarrow> JUndefined
      | Some s \<Rightarrow>
          (case parameter_description p of
             None \<Rightarrow> s
           | Some d \<Rightarrow> JObject (object_set ''description'' (JString d) (spread s))))"


text \<open>A property of an object value, and the keys of an object value.\<close>

definition property :: "json \<Rightarrow> string \<Rightarrow> json option" where
  "property v k = (case v of JObject es \<Rightarrow> map_of es k | _ \<Rightarrow> None)"

definition keys_of :: "json \<Rightarrow> string list" where
  "keys_of v = (case v of JObject es \<Rightarrow> map fst es | _ \<Rightarrow> [])"

text \<open>The encodings of the supported media types, and the first supported content type.\<close>

definition supported_encoding :: "string \<Rightarrow> string option" where
  "supported_encoding mediaType =
     (if mediaType = ''application/json'' then Some ''json''
      else if mediaType = ''application/x-www-form-urlencoded'' then Some ''urlencoded''
      else if mediaType = ''multipart/form-data'' then Some ''multipart''
      else None)"

definition supported :: "string \<times> MediaTypeObject \<Rightarrow> bool" where
  "supported contentType =
     ((case media_schema (snd contentType) of None \<Rightarrow> False | Some s \<Rightarrow> isObject s) \<and>
      supported_encoding (fst contentType) \<noteq> None)"

definition first_supported :: "(string \<times> MediaTypeObject) list \<Rightarrow> (string \<times> MediaTypeObject) option" where
  "first_supported content = find supported content"

text \<open>The body slot for a key and an encoding, and the key chosen for the body.\<close>

definition body_template :: "string \<Rightarrow> string \<Rightarrow> json" where
  "body_template bodyKey encoding = JObject [(''$'', JString bodyKey), (''encode'', JString encoding)]"

definition body_key :: "ApiOperation \<Rightarrow> string" where
  "body_key operation =
     choose_bodyKey (rq_paramIndex (extract_parameters (allParameters operation) initial_request_state)) ''body'' 1"

text \<open>The state after both loops, the roots submitted and the roots returned.\<close>

definition extracted :: "ApiOperation \<Rightarrow> request_state" where
  "extracted operation =
     extract_body operation (extract_parameters (allParameters operation) initial_request_state)"

definition rewritten_roots :: "externals \<Rightarrow> ApiOperation \<Rightarrow> ApiHandleOptions option \<Rightarrow> json list" where
  "rewritten_roots ext operation options =
     fst (treeShakeReferences ext
            (case options of None \<Rightarrow> None | Some opts \<Rightarrow> option_transform opts)
            (rq_schemaRoots (extracted operation)))"

text \<open>
  The servers of the first level that has a \<open>servers\<close> field, be the array empty or
  not: the operation, then the path item (along its chain), then the API.
\<close>

definition declared_servers :: "ApiOperation \<Rightarrow> ServerObject list option" where
  "declared_servers operation =
     (case op_servers (operation_node operation) of
        Some s \<Rightarrow> Some s
      | None \<Rightarrow>
          (case pathItem_servers (operation_pathItem operation) of
             Some s \<Rightarrow> Some s
           | None \<Rightarrow> api_servers (operation_api operation)))"

definition explicit_server :: "ApiHandleOptions option \<Rightarrow> ServerObject option" where
  "explicit_server options = (case options of None \<Rightarrow> None | Some opts \<Rightarrow> option_server opts)"

abbreviation plain_externals :: externals where
  "plain_externals \<equiv>
     \<lparr>treeShakeReferences = (\<lambda>transform roots. (roots, None)),
      expandUriTemplate = (\<lambda>template variable. template),
      getReference_target = (\<lambda>node. None),
      formatQuery = (\<lambda>q. [])\<rparr>"


abbreviation server_at :: "string \<Rightarrow> ServerObject" where
  "server_at u \<equiv> \<lparr>server_url = u, server_variables = None\<rparr>"


definition required_names :: "json list option \<Rightarrow> json list" where
  "required_names required = (case required of None \<Rightarrow> [] | Some r \<Rightarrow> r)"

text \<open>The handle request assembled from the state after both loops, for a given server.\<close>

definition assembled ::
  "externals \<Rightarrow> ApiOperation \<Rightarrow> ApiHandleOptions option \<Rightarrow> ServerObject \<Rightarrow> ApiHandleRequest" where
  "assembled ext operation options server =
     \<lparr>handle_parameters =
        JObject ([(''type'', JString ''object'')] @
                 optional_entry ''properties''
                   (map_option JObject
                     (construct_properties (rq_paramIndex (extracted operation))
                       (rewritten_roots ext operation options))) @
                 optional_entry ''required'' (map_option JArray (rq_required (extracted operation))) @
                 optional_entry ''$defs''
                   (snd (treeShakeReferences ext
                          (case options of None \<Rightarrow> None | Some opts \<Rightarrow> option_transform opts)
                          (rq_schemaRoots (extracted operation))))),
      handle_request =
        JObject ([(''method'', JString (operation_method operation)),
                  (''url'', JObject [(''$uri'', JString
                     (request_url (expand_server_url ext server) (operation_path operation)
                       (rq_query (extracted operation))))])] @
                 optional_entry ''headers'' (map_option JObject (rq_headers (extracted operation))) @
                 optional_entry ''body'' (rq_body (extracted operation)))\<rparr>"

text \<open>
  The name of an operation before the replacement of characters: its \<open>operationId\<close>
  when it has one, else its method in upper case, a space and its path.
\<close>

definition raw_name :: "ApiOperation \<Rightarrow> string" where
  "raw_name operation =
     (case op_operationId (operation_node operation) of
        Some operationId \<Rightarrow> operationId
      | None \<Rightarrow> toUpperCase (operation_key operation) @ '' '' @ pathItem_key (operation_pathItem operation))"









section \<open>Properties of the document graph\<close>

lemma hasParameter_iff:
  "hasParameter ps n l \<longleftrightarrow> (n, l) \<in> parameter_id ` set ps"
  by (induction ps) (auto simp: parameter_id_def)

lemma include_pathItem_parameters_eq:
  "include_pathItem_parameters acc ps = acc @ kept_pathItem_parameters (parameter_id ` set acc) ps"
proof (induction ps arbitrary: acc)
  case Nil
  show ?case by simp
next
  case (Cons p ps)
  show ?case
  proof (cases "parameter_id p \<in> parameter_id ` set acc")
    case True
    then have "hasParameter acc (parameter_name p) (parameter_in p)"
      by (simp add: hasParameter_iff parameter_id_def)
    with True Cons.IH [of acc] show ?thesis by simp
  next
    case False
    then have "\<not> hasParameter acc (parameter_name p) (parameter_in p)"
      by (simp add: hasParameter_iff parameter_id_def)
    with False Cons.IH [of "acc @ [p]"] show ?thesis by simp
  qed
qed

lemma kept_ids:
  "parameter_id ` set (kept_pathItem_parameters present ps) = parameter_id ` set ps - present"
  by (induction ps arbitrary: present) auto

lemma kept_distinct:
  "distinct (map parameter_id (kept_pathItem_parameters present ps))"
  by (induction ps arbitrary: present) (auto simp: kept_ids)

lemma kept_filter_present:
  "k \<in> present \<Longrightarrow> filter (\<lambda>p. parameter_id p = k) (kept_pathItem_parameters present ps) = []"
  by (induction ps arbitrary: present) auto












text \<open>
  C1 (as amended). \<open>allParameters\<close> is the operation's own parameters, in document
  order, followed by the path item's parameters, where a path item parameter is dropped
  when a parameter with the same (name, location) pair is already in the result, be it
  an operation parameter or an earlier path item parameter. The operation's own list is
  taken as it is: the result has no two entries with the same pair whenever the
  operation's own list has none, and for a pair that the operation declares, the entries
  of the result with that pair are exactly the operation's.
\<close>

theorem allParameters_operation_first:
  "allParameters operation =
     direct_parameters operation @
     kept_pathItem_parameters (parameter_id ` set (direct_parameters operation)) (inherited_parameters operation)
   \<and> (distinct (map parameter_id (direct_parameters operation)) \<longrightarrow>
        distinct (map parameter_id (allParameters operation)))
   \<and> (\<forall>k \<in> parameter_id ` set (direct_parameters operation).
        filter (\<lambda>p. parameter_id p = k) (allParameters operation) =
        filter (\<lambda>p. parameter_id p = k) (direct_parameters operation))"
proof -
  have eq: "allParameters operation =
     direct_parameters operation @
     kept_pathItem_parameters (parameter_id ` set (direct_parameters operation)) (inherited_parameters operation)"
    by (simp add: allParameters_def direct_parameters_def inherited_parameters_def
        include_pathItem_parameters_eq split: option.splits)
  have "distinct (map parameter_id (direct_parameters operation)) \<Longrightarrow>
        distinct (map parameter_id (allParameters operation))"
    unfolding eq by (auto simp: kept_distinct kept_ids)
  moreover have "\<forall>k \<in> parameter_id ` set (direct_parameters operation).
        filter (\<lambda>p. parameter_id p = k) (allParameters operation) =
        filter (\<lambda>p. parameter_id p = k) (direct_parameters operation)"
    unfolding eq by (simp add: kept_filter_present)
  ultimately show ?thesis using eq by blast
qed

theorem allParameters_operation_first_witness:
  "allParameters
     \<lparr>operation_key = ''get'',
      operation_node = no_operation\<lparr>op_parameters := Some [plain_parameter ''id'' ''query'']\<rparr>,
      operation_pathItem = at_path ''/users''
        (PathItemObject None None [] None
          (Some [plain_parameter ''id'' ''query'', plain_parameter ''id'' ''path'', plain_parameter ''id'' ''path''])
          None)\<rparr>
   = [plain_parameter ''id'' ''query'', plain_parameter ''id'' ''path'']"
  using allParameters_operation_first
    [of "\<lparr>operation_key = ''get'',
      operation_node = no_operation\<lparr>op_parameters := Some [plain_parameter ''id'' ''query'']\<rparr>,
      operation_pathItem = at_path ''/users''
        (PathItemObject None None [] None
          (Some [plain_parameter ''id'' ''query'', plain_parameter ''id'' ''path'', plain_parameter ''id'' ''path''])
          None)\<rparr>"]
  by (simp add: direct_parameters_def inherited_parameters_def pathItem_parameters.simps parameter_id_def)

text \<open>
  C1 (as stated) fails: an operation that lists the query parameter \<open>id\<close> twice
  keeps both entries, so the result has two entries with the same (name, location) pair.
\<close>

theorem allParameters_duplicate_counterexample:
  "\<not> distinct (map parameter_id (allParameters
     \<lparr>operation_key = ''get'',
      operation_node = no_operation\<lparr>op_parameters :=
        Some [plain_parameter ''id'' ''query'', plain_parameter ''id'' ''query'']\<rparr>,
      operation_pathItem = at_path ''/users'' (plain_item [] None)\<rparr>))"
  by (simp add: allParameters_def pathItem_parameters.simps resolved_def parameter_id_def)



section \<open>Properties of the request template\<close>

lemma key_of_entry: "(a, b) \<in> set es \<Longrightarrow> a \<in> fst ` set es"
  by force

lemma has_key_iff: "has_key k es \<longleftrightarrow> k \<in> fst ` set es"
  by (induction es) auto


lemma map_of_update_entry:
  "map_of (update_entry k v es) x = (if x = k \<and> k \<in> fst ` set es then Some v else map_of es x)"
proof (induction es)
  case Nil
  show ?case by simp
next
  case (Cons e es)
  obtain k' v' where e: "e = (k', v')" by (cases e)
  show ?case
  proof (cases "k' = k")
    case True
    then show ?thesis by (simp add: e)
  next
    case False
    then show ?thesis using Cons.IH by (auto simp: e dest: key_of_entry)
  qed
qed

lemma map_of_insert_index:
  "k \<notin> fst ` set es \<Longrightarrow> map_of (insert_index i k v es) x = (if x = k then Some v else map_of es x)"
proof (induction es)
  case Nil
  show ?case by simp
next
  case (Cons e es)
  obtain k' v' where e: "e = (k', v')" by (cases e)
  from Cons.prems have notin: "k \<notin> fst ` set es" and neq: "k' \<noteq> k" by (auto simp: e)
  note IH = Cons.IH [OF notin]
  show ?case
  proof (cases "array_index k'")
    case None
    then show ?thesis using neq by (simp add: e)
  next
    case (Some j)
    then show ?thesis using neq IH by (auto simp: e)
  qed
qed

lemma map_of_object_set: "map_of (object_set k v es) x = (if x = k then Some v else map_of es x)"
proof (cases "k \<in> fst ` set es")
  case True
  then show ?thesis by (simp add: object_set_def has_key_iff map_of_update_entry)
next
  case False
  then have none: "map_of es k = None" by (simp add: map_of_eq_None_iff)
  show ?thesis
  proof (cases "array_index k")
    case None
    with False none show ?thesis by (auto simp: object_set_def has_key_iff map_add_def split: option.splits)
  next
    case (Some i)
    with False show ?thesis by (simp add: object_set_def has_key_iff map_of_insert_index)
  qed
qed








lemma has_object_schemaE:
  assumes "has_object_schema p"
  obtains s where "parameter_schema p = Some s" and "isObject s"
  using assms by (auto simp: has_object_schema_def split: option.splits)

lemma extract_parameter_skip:
  "\<not> has_object_schema p \<Longrightarrow> extract_parameter st p = st"
  by (cases "parameter_schema p") (simp_all add: extract_parameter_def has_object_schema_def)


lemma extract_parameter_body: "rq_body (extract_parameter st p) = rq_body st"
proof (cases "has_object_schema p")
  case True
  then obtain s where "parameter_schema p = Some s" and "isObject s"
    by (rule has_object_schemaE)
  then show ?thesis by (simp add: extract_parameter_def Let_def)
next
  case False
  then show ?thesis by (simp add: extract_parameter_skip)
qed





lemma extract_parameters_body: "rq_body (extract_parameters ps st) = rq_body st"
  by (induction ps rule: rev_induct) (simp_all add: extract_parameters_def extract_parameter_body)









lemma extract_requestBody_props:
  "rq_query (extract_requestBody rb key content st) = rq_query st \<and>
   rq_headers (extract_requestBody rb key content st) = rq_headers st \<and>
   rq_body (extract_requestBody rb key content st) =
     (case first_supported content of
        None \<Rightarrow> rq_body st
      | Some (mediaType, node) \<Rightarrow> Some (body_template key (the (supported_encoding mediaType)))) \<and>
   (\<forall>k. k \<noteq> key \<longrightarrow> map_of (rq_paramIndex (extract_requestBody rb key content st)) k = map_of (rq_paramIndex st) k) \<and>
   take (length (rq_schemaRoots st)) (rq_schemaRoots (extract_requestBody rb key content st)) = rq_schemaRoots st \<and>
   set (required_names (rq_required st)) \<subseteq> set (required_names (rq_required (extract_requestBody rb key content st)))"
proof (induction content)
  case Nil
  show ?case by (simp add: first_supported_def)
next
  case (Cons c content)
  obtain mediaType node where c: "c = (mediaType, node)" by (cases c)
  show ?case
  proof (cases "supported c")
    case False
    then have "extract_requestBody rb key (c # content) st = extract_requestBody rb key content st"
      by (cases "media_schema node")
        (auto simp: c supported_def supported_encoding_def Let_def split: if_splits)
    with False Cons.IH show ?thesis by (simp add: first_supported_def)
  next
    case True
    then obtain s where s: "media_schema node = Some s" "isObject s"
      by (auto simp: c supported_def split: option.splits)
    from True have enc: "supported_encoding mediaType \<noteq> None" by (simp add: c supported_def)
    show ?thesis
      using True s enc
      by (auto simp: c Let_def supported_encoding_def body_template_def map_of_object_set first_supported_def
          push_required_def required_names_def split: if_splits option.splits)
  qed
qed


lemma property_optional:
  "map_of (optional_entry k v) x = (if x = k then v else None)"
  by (cases v) (simp_all add: optional_entry_def)

lemma generateApiHandleRequest_unfold:
  "generateApiHandleRequest ext operation options =
     (case select_server operation options of
        Inl e \<Rightarrow> Inl e
      | Inr server \<Rightarrow> Inr (assembled ext operation options server))"
  by (cases "select_server operation options")
    (simp_all add: generateApiHandleRequest_def assembled_def extracted_def rewritten_roots_def Let_def)

lemma generateApiHandleRequest_Inr:
  assumes "generateApiHandleRequest ext operation options = Inr r"
  obtains server where "select_server operation options = Inr server"
    and "r = assembled ext operation options server"
  using assms by (auto simp: generateApiHandleRequest_unfold split: sum.splits)

lemma assembled_body:
  "property (handle_request (assembled ext operation options server)) ''body'' = rq_body (extracted operation)"
  by (simp add: assembled_def property_def map_add_def property_optional split: option.splits)

lemma select_server_cases:
  "select_server operation options =
     (case explicit_server options of
        Some server \<Rightarrow> Inr server
      | None \<Rightarrow>
          (case declared_servers operation of
             None \<Rightarrow> Inl (ApiError ''No servers defined for operation'')
           | Some [] \<Rightarrow> Inl (ApiError ''No servers defined for operation'')
           | Some (server # others) \<Rightarrow> Inr server))"
  by (simp add: select_server_def explicit_server_def declared_servers_def
      split: option.splits list.splits)


lemma extracted_body:
  "rq_body (extracted operation) =
     (case op_requestBody (operation_node operation) of
        None \<Rightarrow> None
      | Some requestBody \<Rightarrow>
          (case first_supported (case requestBody_content requestBody of None \<Rightarrow> [] | Some content \<Rightarrow> content) of
             None \<Rightarrow> None
           | Some (mediaType, node) \<Rightarrow>
               Some (body_template (body_key operation) (the (supported_encoding mediaType)))))"
  by (simp add: extracted_def extract_body_def extract_requestBody_props extract_parameters_body
      initial_request_state_def body_key_def split: option.splits)

lemma first_supported_encoding:
  "first_supported content = Some (mediaType, node) \<Longrightarrow> supported_encoding mediaType \<noteq> None"
proof -
  assume "first_supported content = Some (mediaType, node)"
  then have "supported (mediaType, node)"
    by (auto simp: first_supported_def find_Some_iff)
  then show ?thesis by (simp add: supported_def)
qed

text \<open>
  C3. When the request template is generated, the body slot comes from the first content
  type of the request body, in document order, whose schema is an object and whose media
  type is \<open>application/json\<close> (encoded as json), \<open>application/x-www-form-urlencoded\<close>
  (urlencoded) or \<open>multipart/form-data\<close> (multipart); content types before it are
  passed over and those after it are ignored, and there is no body slot when there is no
  such content type. In particular, for the content types \<open>text/plain\<close> and
  \<open>application/json\<close> in that order, the second with an object schema, the body slot
  encodes as json.
\<close>

theorem body_from_first_supported_content_type:
  assumes "generateApiHandleRequest ext operation options = Inr r"
  shows "property (handle_request r) ''body'' =
      (case op_requestBody (operation_node operation) of
         None \<Rightarrow> None
       | Some requestBody \<Rightarrow>
           (case first_supported (case requestBody_content requestBody of None \<Rightarrow> [] | Some content \<Rightarrow> content) of
              None \<Rightarrow> None
            | Some (mediaType, node) \<Rightarrow>
                map_option (body_template (body_key operation)) (supported_encoding mediaType)))
    \<and> (\<forall>requestBody unsupported json s.
          op_requestBody (operation_node operation) = Some requestBody \<and>
          requestBody_content requestBody = Some [(''text/plain'', unsupported), (''application/json'', json)] \<and>
          media_schema json = Some s \<and> isObject s \<longrightarrow>
          property (handle_request r) ''body'' = Some (body_template (body_key operation) ''json''))"
proof -
  from assms obtain server where r: "r = assembled ext operation options server"
    by (rule generateApiHandleRequest_Inr)
  have body: "property (handle_request r) ''body'' = rq_body (extracted operation)"
    by (simp add: r assembled_body)
  have general: "property (handle_request r) ''body'' =
      (case op_requestBody (operation_node operation) of
         None \<Rightarrow> None
       | Some requestBody \<Rightarrow>
           (case first_supported (case requestBody_content requestBody of None \<Rightarrow> [] | Some content \<Rightarrow> content) of
              None \<Rightarrow> None
            | Some (mediaType, node) \<Rightarrow>
                map_option (body_template (body_key operation)) (supported_encoding mediaType)))"
    unfolding body extracted_body
    by (auto split: option.splits dest: first_supported_encoding)
  have scenario: "\<And>requestBody unsupported json s.
          op_requestBody (operation_node operation) = Some requestBody \<Longrightarrow>
          requestBody_content requestBody = Some [(''text/plain'', unsupported), (''application/json'', json)] \<Longrightarrow>
          media_schema json = Some s \<Longrightarrow> isObject s \<Longrightarrow>
          property (handle_request r) ''body'' = Some (body_template (body_key operation) ''json'')"
    unfolding general
    by (simp add: first_supported_def supported_def supported_encoding_def)
  from general scenario show ?thesis by blast
qed

lemmas evaluate_document =
  allParameters_def pathItem_parameters.simps pathItem_servers.simps resolved_def
  operation_api_def operation_path_def operation_method_def toUpperCase_def upper_char_def
  char_of_eq_iff

lemmas evaluate_request =
  generateApiHandleRequest_unfold select_server_def assembled_def extracted_def rewritten_roots_def
  extract_parameters_def extract_parameter_def extract_body_def initial_request_state_def
  add_slot_def push_required_def object_set_def array_index_def is_digit_def digits_value_def
  property_key_def json_of_string_def construct_properties_def element_at_def
  choose_bodyKey.simps object_get_def expand_server_url_def request_url_def join_vars_def
  optional_entry_def Let_def

lemmas evaluate_notions =
  property_def keys_of_def body_template_def body_key_def first_supported_def supported_def
  supported_encoding_def located_def collected_parameters_def has_object_schema_def slot_key_def
  declared_servers_def explicit_server_def described_schema_def

theorem body_from_first_supported_content_type_witness:
  "generateApiHandleRequest plain_externals
     \<lparr>operation_key = ''post'',
      operation_node = no_operation\<lparr>op_requestBody := Some
        \<lparr>requestBody_description = None,
         requestBody_content = Some
           [(''text/plain'', \<lparr>media_schema = Some (JObject [(''type'', JString ''string'')])\<rparr>),
            (''application/json'', \<lparr>media_schema = Some (JObject [(''type'', JString ''object'')])\<rparr>)],
         requestBody_required = None\<rparr>\<rparr>,
      operation_pathItem =
        \<lparr>pathItem_key = ''/users'', pathItem_node = plain_item [] None,
         pathItem_api = \<lparr>api_servers = Some [server_at ''https://example.test'']\<rparr>\<rparr>\<rparr>
     None
   = Inr \<lparr>handle_parameters =
            JObject [(''type'', JString ''object''),
                     (''properties'', JObject [(''body'', JObject [(''type'', JString ''object'')])])],
          handle_request =
            JObject [(''method'', JString ''POST''),
                     (''url'', JObject [(''$uri'', JString ''https://example.test/users'')]),
                     (''body'', JObject [(''$'', JString ''body''), (''encode'', JString ''json'')])]\<rparr>
   \<and> property
     (JObject [(''method'', JString ''POST''),
               (''url'', JObject [(''$uri'', JString ''https://example.test/users'')]),
               (''body'', JObject [(''$'', JString ''body''), (''encode'', JString ''json'')])])
     ''body''
   = Some (JObject [(''$'', JString ''body''), (''encode'', JString ''json'')])"
proof -
  let ?operation = "\<lparr>operation_key = ''post'',
      operation_node = no_operation\<lparr>op_requestBody := Some
        \<lparr>requestBody_description = None,
         requestBody_content = Some
           [(''text/plain'', \<lparr>media_schema = Some (JObject [(''type'', JString ''string'')])\<rparr>),
            (''application/json'', \<lparr>media_schema = Some (JObject [(''type'', JString ''object'')])\<rparr>)],
         requestBody_required = None\<rparr>\<rparr>,
      operation_pathItem =
        \<lparr>pathItem_key = ''/users'', pathItem_node = plain_item [] None,
         pathItem_api = \<lparr>api_servers = Some [server_at ''https://example.test'']\<rparr>\<rparr>\<rparr>"
  let ?result = "\<lparr>handle_parameters =
            JObject [(''type'', JString ''object''),
                     (''properties'', JObject [(''body'', JObject [(''type'', JString ''object'')])])],
          handle_request =
            JObject [(''method'', JString ''POST''),
                     (''url'', JObject [(''$uri'', JString ''https://example.test/users'')]),
                     (''body'', JObject [(''$'', JString ''body''), (''encode'', JString ''json'')])]\<rparr>"
  have run: "generateApiHandleRequest plain_externals ?operation None = Inr ?result"
    by (simp add: evaluate_document evaluate_request)
  from body_from_first_supported_content_type [OF run] run show ?thesis
    by (simp add: evaluate_notions evaluate_document evaluate_request)
qed

lemma assembled_url:
  "property (handle_request (assembled ext operation options server)) ''url'' =
     Some (JObject [(''$uri'', JString
       (request_url (expand_server_url ext server) (operation_path operation) (rq_query (extracted operation))))])"
  by (simp add: assembled_def property_def)

text \<open>
  C4 (as amended). Request synthesis takes the explicit option server when there is one;
  otherwise it takes the \<open>servers\<close> array of the first level that declares one,
  empty or not (the operation, else the path item along its chain of references, else
  the API), and uses its first server. It fails with "No servers defined for operation"
  exactly when there is no explicit server and that array is absent at every level or
  is empty; in every other case the request is generated with the URL of the server
  selected.
\<close>

theorem server_selection_by_declared_level:
  "(generateApiHandleRequest ext operation options = Inl (ApiError ''No servers defined for operation'') \<longleftrightarrow>
      explicit_server options = None \<and>
      (declared_servers operation = None \<or> declared_servers operation = Some []))
   \<and> (\<forall>server.
         explicit_server options = Some server \<or>
         (explicit_server options = None \<and> (\<exists>others. declared_servers operation = Some (server # others)))
         \<longrightarrow> generateApiHandleRequest ext operation options = Inr (assembled ext operation options server)
           \<and> property (handle_request (assembled ext operation options server)) ''url'' =
               Some (JObject [(''$uri'', JString
                 (request_url (expand_server_url ext server) (operation_path operation)
                   (rq_query (extracted operation))))]))"
  by (auto simp: generateApiHandleRequest_unfold select_server_cases assembled_url
      split: option.splits list.splits)

theorem server_selection_by_declared_level_witness:
  "generateApiHandleRequest plain_externals
     \<lparr>operation_key = ''get'', operation_node = no_operation,
      operation_pathItem =
        \<lparr>pathItem_key = ''/users'',
         pathItem_node = plain_item []
           (Some (PathItemObject None None [] (Some [server_at ''https://items.example.test'']) None None)),
         pathItem_api = \<lparr>api_servers = Some [server_at ''https://example.test'']\<rparr>\<rparr>\<rparr>
     None
   = Inr \<lparr>handle_parameters = JObject [(''type'', JString ''object'')],
          handle_request =
            JObject [(''method'', JString ''GET''),
                     (''url'', JObject [(''$uri'', JString ''https://items.example.test/users'')])]\<rparr>"
  using server_selection_by_declared_level
    [of plain_externals
      "\<lparr>operation_key = ''get'', operation_node = no_operation,
      operation_pathItem =
        \<lparr>pathItem_key = ''/users'',
         pathItem_node = plain_item []
           (Some (PathItemObject None None [] (Some [server_at ''https://items.example.test'']) None None)),
         pathItem_api = \<lparr>api_servers = Some [server_at ''https://example.test'']\<rparr>\<rparr>\<rparr>"
      None]
  by (simp add: evaluate_notions evaluate_document evaluate_request)

text \<open>
  C4 (as stated) fails: an operation whose own \<open>servers\<close> array is empty fails with
  "No servers defined for operation" although the API declares a server.
\<close>

theorem empty_operation_servers_counterexample:
  "generateApiHandleRequest plain_externals
     \<lparr>operation_key = ''get'', operation_node = no_operation\<lparr>op_servers := Some []\<rparr>,
      operation_pathItem =
        \<lparr>pathItem_key = ''/users'', pathItem_node = plain_item [] None,
         pathItem_api = \<lparr>api_servers = Some [server_at ''https://example.test'']\<rparr>\<rparr>\<rparr>
     None
   = Inl (ApiError ''No servers defined for operation'')"
  by (simp add: generateApiHandleRequest_unfold select_server_def)















section \<open>Properties of the schema templates and of the handle\<close>





lemma replace_other_chars_class: "\<forall>c \<in> set (replace_other_chars name). name_char c"
  by (auto simp: replace_other_chars_def name_char_def)

text \<open>
  C7. The name of a generated handle is the operation's \<open>operationId\<close> when it has
  one, else its method in upper case followed by a space and the path template, with every
  character outside \<open>[A-Za-z0-9_-]\<close> replaced by an underscore and the others kept;
  for an operation without \<open>operationId\<close>, with method \<open>get\<close> and path
  \<open>/users/{id}\<close>, the name is \<open>GET__users__id_\<close>.
\<close>

theorem handle_name_from_operation:
  assumes "generateApiHandle n ext operation options = Some (Inr handle)"
  shows "property handle ''name'' = Some (JString (replace_other_chars (raw_name operation)))
    \<and> length (replace_other_chars (raw_name operation)) = length (raw_name operation)
    \<and> (\<forall>i < length (raw_name operation).
          replace_other_chars (raw_name operation) ! i =
            (if name_char (raw_name operation ! i) then raw_name operation ! i else CHR ''_''))
    \<and> (\<forall>c \<in> set (replace_other_chars (raw_name operation)). name_char c)
    \<and> (op_operationId (operation_node operation) = None \<and> operation_key operation = ''get'' \<and>
        pathItem_key (operation_pathItem operation) = ''/users/{id}'' \<longrightarrow>
        property handle ''name'' = Some (JString ''GET__users__id_''))"
proof -
  have named: "property handle ''name'' = Some (JString (replace_other_chars (raw_name operation)))"
    using assms
    by (cases "op_operationId (operation_node operation)")
      (auto simp: generateApiHandle_def Let_def property_def operation_method_def operation_path_def
        raw_name_def split: sum.splits option.splits)
  have scenario: "property handle ''name'' = Some (JString ''GET__users__id_'')"
    if "op_operationId (operation_node operation) = None" and "operation_key operation = ''get''"
      and "pathItem_key (operation_pathItem operation) = ''/users/{id}''"
    using that named
    by (simp add: raw_name_def toUpperCase_def upper_char_def char_of_eq_iff
        replace_other_chars_def name_char_def)
  have positions: "length (replace_other_chars (raw_name operation)) = length (raw_name operation)
    \<and> (\<forall>i < length (raw_name operation).
          replace_other_chars (raw_name operation) ! i =
            (if name_char (raw_name operation ! i) then raw_name operation ! i else CHR ''_''))"
    by (simp add: replace_other_chars_def)
  from named scenario positions replace_other_chars_class [of "raw_name operation"]
  show ?thesis by blast
qed

lemmas evaluate_handle =
  generateApiHandle_def generateApiHandleResponses_def operation_responses_def
  replace_other_chars_def name_char_def raw_name_def

theorem handle_name_from_operation_witness:
  "generateApiHandle 0 plain_externals
     \<lparr>operation_key = ''get'', operation_node = no_operation,
      operation_pathItem =
        \<lparr>pathItem_key = ''/users/{id}'', pathItem_node = plain_item [] None,
         pathItem_api = \<lparr>api_servers = Some [server_at ''https://example.test'']\<rparr>\<rparr>\<rparr>
     None
   = Some (Inr (JObject
       [(''name'', JString ''GET__users__id_''),
        (''parameters'', JObject [(''type'', JString ''object'')]),
        (''handler'', JString ''http''),
        (''request'', JObject [(''method'', JString ''GET''),
                               (''url'', JObject [(''$uri'', JString ''https://example.test/users/{id}'')])]),
        (''responses'', JObject [])]))"
proof -
  let ?operation = "\<lparr>operation_key = ''get'', operation_node = no_operation,
      operation_pathItem =
        \<lparr>pathItem_key = ''/users/{id}'', pathItem_node = plain_item [] None,
         pathItem_api = \<lparr>api_servers = Some [server_at ''https://example.test'']\<rparr>\<rparr>\<rparr>"
  let ?handle = "JObject
       [(''name'', JString ''GET__users__id_''),
        (''parameters'', JObject [(''type'', JString ''object'')]),
        (''handler'', JString ''http''),
        (''request'', JObject [(''method'', JString ''GET''),
                               (''url'', JObject [(''$uri'', JString ''https://example.test/users/{id}'')])]),
        (''responses'', JObject [])]"
  have run: "generateApiHandle 0 plain_externals ?operation None = Some (Inr ?handle)"
    by (simp add: evaluate_handle evaluate_document evaluate_request)
  from handle_name_from_operation [OF run] run show ?thesis by simp
qed

text \<open>
  C10. The branch of \<open>generateApiHandle\<close> that raises "Unnamed operation" is never
  taken: the method and the path of an operation are strings, so the name is always
  defined, and no generation of a handle fails with that error.
\<close>

theorem unnamed_operation_unreachable:
  "generateApiHandle n ext operation options \<noteq> Some (Inl (ApiError ''Unnamed operation''))"
proof -
  have request: "generateApiHandleRequest ext operation options \<noteq> Inl (ApiError ''Unnamed operation'')"
    by (auto simp: generateApiHandleRequest_unfold select_server_cases split: option.splits list.splits)
  then show ?thesis
    by (auto simp: generateApiHandle_def Let_def split: option.splits sum.splits)
qed

theorem unnamed_operation_unreachable_witness:
  "generateApiHandle 0 plain_externals
     \<lparr>operation_key = ''get'', operation_node = no_operation,
      operation_pathItem =
        \<lparr>pathItem_key = ''/users/{id}'', pathItem_node = plain_item [] None,
         pathItem_api = \<lparr>api_servers = None\<rparr>\<rparr>\<rparr>
     None
   = Some (Inl (ApiError ''No servers defined for operation''))
   \<and> generateApiHandle 0 plain_externals
     \<lparr>operation_key = ''get'', operation_node = no_operation,
      operation_pathItem =
        \<lparr>pathItem_key = ''/users/{id}'', pathItem_node = plain_item [] None,
         pathItem_api = \<lparr>api_servers = None\<rparr>\<rparr>\<rparr>
     None
   \<noteq> Some (Inl (ApiError ''Unnamed operation''))"
  using unnamed_operation_unreachable [of 0 plain_externals
     "\<lparr>operation_key = ''get'', operation_node = no_operation,
      operation_pathItem =
        \<lparr>pathItem_key = ''/users/{id}'', pathItem_node = plain_item [] None,
         pathItem_api = \<lparr>api_servers = None\<rparr>\<rparr>\<rparr>" None]
  by (simp add: evaluate_handle evaluate_document evaluate_request)











end
